theory Spec2Isabelle
  imports Main
begin

section \<open>JSON values and Python dictionaries\<close>

text \<open>
  The values \<^verbatim>\<open>json.loads\<close> produces. A Python dict is an association list read with
  \<open>map_of\<close>; Python's \<^verbatim>\<open>None\<close> is \<open>JNull\<close>. A float is carried by its literal: the
  program never computes with one.
\<close>

datatype json =
    JNull
  | JBool bool
  | JInt int
  | JFloat string
  | JStr string
  | JList "json list"
  | JObj "(string \<times> json) list"

type_synonym pydict = "(string \<times> json) list"

fun is_list :: "json \<Rightarrow> bool" where
  "is_list (JList xs) = True"
| "is_list v = False"

fun is_dict :: "json \<Rightarrow> bool" where
  "is_dict (JObj d) = True"
| "is_dict v = False"

text \<open>\<^verbatim>\<open>d.get(key, default)\<close>; \<^verbatim>\<open>d.get(key)\<close> is \<open>py_get d key JNull\<close>.\<close>

definition py_get :: "pydict \<Rightarrow> string \<Rightarrow> json \<Rightarrow> json" where
  "py_get d k dflt = (case map_of d k of None \<Rightarrow> dflt | Some v \<Rightarrow> v)"

section \<open>parse\_units\_payload\<close>

definition wrapper_keys :: "string list" where
  "wrapper_keys = [''item_units'', ''data'', ''units'', ''results'', ''items'']"

text \<open>The \<^verbatim>\<open>for key in (...)\<close> loop; running off its end reaches \<^verbatim>\<open>return []\<close>.\<close>

fun find_units :: "pydict \<Rightarrow> string list \<Rightarrow> json list" where
  "find_units d [] = []"
| "find_units d (k # ks) =
     (case py_get d k JNull of
        JList v \<Rightarrow> filter is_dict v
      | _ \<Rightarrow> find_units d ks)"

fun parse_units_payload :: "json \<Rightarrow> json list" where
  "parse_units_payload (JList xs) = filter is_dict xs"
| "parse_units_payload (JObj d) = find_units d wrapper_keys"
| "parse_units_payload v = []"

text \<open>
  The shapes the specification calls "any other": not a list, and not an object in which
  one of the wrapper keys holds a list.
\<close>

fun other_shape :: "json \<Rightarrow> bool" where
  "other_shape (JList xs) = False"
| "other_shape (JObj d) = (\<forall>k \<in> set wrapper_keys. \<not> is_list (py_get d k JNull))"
| "other_shape v = True"

section \<open>Python strings\<close>

text \<open>
  A Python \<^verbatim>\<open>str\<close> is a \<open>string\<close>; a \<open>char\<close> is read as the code point of the same
  number, so the model covers text whose code points are below 256.
\<close>

text \<open>The code points below 256 for which \<^verbatim>\<open>str.isspace\<close> holds: what \<^verbatim>\<open>strip()\<close> removes.\<close>

definition whitespace :: "char list" where
  "whitespace = [CHR 0x09, CHR 0x0A, CHR 0x0B, CHR 0x0C, CHR 0x0D, CHR 0x1C, CHR 0x1D,
                 CHR 0x1E, CHR 0x1F, CHR 0x20, CHR 0x85, CHR 0xA0]"

text \<open>\<^verbatim>\<open>s.strip(chars)\<close> and \<^verbatim>\<open>s.strip()\<close>.\<close>

definition strip_chars :: "char list \<Rightarrow> string \<Rightarrow> string" where
  "strip_chars cs s =
     rev (dropWhile (\<lambda>c. c \<in> set cs) (rev (dropWhile (\<lambda>c. c \<in> set cs) s)))"

definition strip :: "string \<Rightarrow> string" where
  "strip s = strip_chars whitespace s"

text \<open>
  \<^verbatim>\<open>s.lower()\<close>: below 256 the upper-case letters are A-Z and 0xC0-0xDE without 0xD7,
  each 32 below its lower-case letter.
\<close>

definition upper_letters :: "char list" where
  "upper_letters = ''ABCDEFGHIJKLMNOPQRSTUVWXYZ'' @
    [CHR 0xC0, CHR 0xC1, CHR 0xC2, CHR 0xC3, CHR 0xC4, CHR 0xC5, CHR 0xC6, CHR 0xC7,
     CHR 0xC8, CHR 0xC9, CHR 0xCA, CHR 0xCB, CHR 0xCC, CHR 0xCD, CHR 0xCE, CHR 0xCF,
     CHR 0xD0, CHR 0xD1, CHR 0xD2, CHR 0xD3, CHR 0xD4, CHR 0xD5, CHR 0xD6, CHR 0xD8,
     CHR 0xD9, CHR 0xDA, CHR 0xDB, CHR 0xDC, CHR 0xDD, CHR 0xDE]"

definition lower_letters :: "char list" where
  "lower_letters = ''abcdefghijklmnopqrstuvwxyz'' @
    [CHR 0xE0, CHR 0xE1, CHR 0xE2, CHR 0xE3, CHR 0xE4, CHR 0xE5, CHR 0xE6, CHR 0xE7,
     CHR 0xE8, CHR 0xE9, CHR 0xEA, CHR 0xEB, CHR 0xEC, CHR 0xED, CHR 0xEE, CHR 0xEF,
     CHR 0xF0, CHR 0xF1, CHR 0xF2, CHR 0xF3, CHR 0xF4, CHR 0xF5, CHR 0xF6, CHR 0xF8,
     CHR 0xF9, CHR 0xFA, CHR 0xFB, CHR 0xFC, CHR 0xFD, CHR 0xFE]"

definition lower_char :: "char \<Rightarrow> char" where
  "lower_char c = (case map_of (zip upper_letters lower_letters) c of Some l \<Rightarrow> l | None \<Rightarrow> c)"

definition lower :: "string \<Rightarrow> string" where
  "lower s = map lower_char s"

definition startswith :: "string \<Rightarrow> string \<Rightarrow> bool" where
  "startswith s p = (take (length p) s = p)"

text \<open>\<^verbatim>\<open>sep.join(xs)\<close> and \<^verbatim>\<open>s.split(sep)\<close> for a one-character separator.\<close>

fun join_with :: "string \<Rightarrow> string list \<Rightarrow> string" where
  "join_with sep [] = []"
| "join_with sep [x] = x"
| "join_with sep (x # y # ys) = x @ sep @ join_with sep (y # ys)"

fun split_on :: "char \<Rightarrow> string \<Rightarrow> string list" where
  "split_on sep [] = [[]]"
| "split_on sep (c # cs) =
     (if c = sep then [] # split_on sep cs
      else (case split_on sep cs of
              x # xs \<Rightarrow> (c # x) # xs
            | [] \<Rightarrow> [[c]]))"

text \<open>\<^verbatim>\<open>str(n)\<close> for a length or a status code.\<close>

fun show_nat :: "nat \<Rightarrow> string" where
  "show_nat n =
     (if n < 10 then [''0123456789'' ! n]
      else show_nat (n div 10) @ [''0123456789'' ! (n mod 10)])"

declare show_nat.simps [simp del]

text \<open>
  Iterating over a text file opened with \<^verbatim>\<open>newline=""\<close>: a line ends after LF, after CR LF
  or after a lone CR, and keeps its terminator. The first argument is the line read so far.
\<close>

fun file_lines :: "string \<Rightarrow> string \<Rightarrow> string list" where
  "file_lines cur [] = (if cur = [] then [] else [cur])"
| "file_lines cur (c # cs) =
     (if c = CHR 0x0A then (cur @ [c]) # file_lines [] cs
      else if c = CHR 0x0D then
        (case cs of
           [] \<Rightarrow> [cur @ [c]]
         | d # ds \<Rightarrow>
             if d = CHR 0x0A then (cur @ [c, d]) # file_lines [] ds
             else (cur @ [c]) # file_lines [] cs)
      else file_lines (cur @ [c]) cs)"

section \<open>Exceptions\<close>

text \<open>
  The exception classes the program raises or lets through, each with its message.
  \<open>OtherException\<close> is an exception of any other class, with the name of its class: the
  program only lets it through (\<^verbatim>\<open>InvalidURL\<close>, \<^verbatim>\<open>UnicodeDecodeError\<close>,
  \<^verbatim>\<open>TimeoutError\<close>, ...).
\<close>

datatype exn =
    ValueError string
  | FileNotFoundError string
  | RuntimeError string
  | AttributeError string
  | OtherException string string

fun str_exn :: "exn \<Rightarrow> string" where
  "str_exn (ValueError m) = m"
| "str_exn (FileNotFoundError m) = m"
| "str_exn (RuntimeError m) = m"
| "str_exn (AttributeError m) = m"
| "str_exn (OtherException cls m) = m"

section \<open>Paths\<close>

text \<open>
  \<^verbatim>\<open>pathlib.Path\<close> on a POSIX system: a root (empty, one slash or two) and the components
  after it. Parsing drops empty components and single dots.
\<close>

record path =
  root :: string
  parts :: "string list"

definition Path :: "string \<Rightarrow> path" where
  "Path s =
     \<lparr>root = (if startswith s ''/''
              then (if startswith s ''//'' \<and> \<not> startswith s ''///'' then ''//'' else ''/'')
              else []),
      parts = filter (\<lambda>x. x \<noteq> [] \<and> x \<noteq> ''.'') (split_on CHR ''/'' s)\<rparr>"

definition is_absolute :: "path \<Rightarrow> bool" where
  "is_absolute p = (root p \<noteq> [])"

definition parent :: "path \<Rightarrow> path" where
  "parent p = (if parts p = [] then p else p\<lparr>parts := butlast (parts p)\<rparr>)"

text \<open>\<^verbatim>\<open>p / q\<close>: a right operand with a root replaces the left one.\<close>

definition joinpath :: "path \<Rightarrow> path \<Rightarrow> path" where
  "joinpath p q = (if root q \<noteq> [] then q else p\<lparr>parts := parts p @ parts q\<rparr>)"

definition path_str :: "path \<Rightarrow> string" where
  "path_str p =
     (if root p = [] \<and> parts p = [] then ''.''
      else root p @ join_with ''/'' (parts p))"

section \<open>Command line and token\<close>

text \<open>
  The parsed arguments. \<^verbatim>\<open>--timeout\<close> is a float handed to \<^verbatim>\<open>urlopen\<close> unchanged and is
  left out.
\<close>

record args =
  arg_token :: "string option"
  arg_input :: string
  arg_output :: "string option"

text \<open>The second argument is \<^verbatim>\<open>os.getenv("RACKBEAT_BEARER_TOKEN")\<close>.\<close>

definition get_token :: "string option \<Rightarrow> string option \<Rightarrow> exn + string" where
  "get_token arg_tok env_tok =
     (let token = (case arg_tok of
                     None \<Rightarrow> env_tok
                   | Some t \<Rightarrow> if t \<noteq> [] then Some t else env_tok)
      in case token of
           None \<Rightarrow> Inl (ValueError ''Bearer token is required via --token or RACKBEAT_BEARER_TOKEN.'')
         | Some t \<Rightarrow>
             if t = [] then Inl (ValueError ''Bearer token is required via --token or RACKBEAT_BEARER_TOKEN.'')
             else Inr (strip t))"

text \<open>The output path \<open>main\<close> computes from \<^verbatim>\<open>--input\<close> and \<^verbatim>\<open>--output\<close>.\<close>

definition output_path :: "args \<Rightarrow> path" where
  "output_path a =
     (let input_path = Path (arg_input a)
      in case arg_output a of
           None \<Rightarrow> joinpath (parent input_path) (Path ''product_units.csv'')
         | Some out \<Rightarrow>
             if out \<noteq> [] then
               (let candidate_output = Path out
                in if is_absolute candidate_output then candidate_output
                   else joinpath (parent input_path) candidate_output)
             else joinpath (parent input_path) (Path ''product_units.csv''))"

section \<open>Input reader\<close>

text \<open>
  The \<^verbatim>\<open>csv\<close> module is taken as given: \<open>sniff\<close> is the delimiter
  \<^verbatim>\<open>csv.Sniffer().sniff\<close> finds in the sample, \<open>None\<close> when it raises \<^verbatim>\<open>csv.Error\<close>;
  \<open>csv_reader d text\<close> is the list of rows \<^verbatim>\<open>csv.reader\<close> yields on the file with
  delimiter \<open>d\<close> (a blank line is the row \<open>[]\<close>).
\<close>

definition detect_delimiter :: "(string \<Rightarrow> char option) \<Rightarrow> string \<Rightarrow> char" where
  "detect_delimiter sniff sample = (case sniff sample of Some d \<Rightarrow> d | None \<Rightarrow> CHR '';'')"

definition candidates :: "string list" where
  "candidates = [''product_number'', ''productnumber'', ''product no'', ''product_no'',
                 ''product nr'', ''productnr'', ''itemnumber'', ''sku'', ''varenummer'']"

text \<open>The dict comprehension: a later field name with the same normalized form wins.\<close>

definition normalized :: "string list \<Rightarrow> (string \<rightharpoonup> string)" where
  "normalized fieldnames = map_of (rev (map (\<lambda>name. (lower (strip name), name)) fieldnames))"

fun first_candidate :: "(string \<rightharpoonup> string) \<Rightarrow> string list \<Rightarrow> string option" where
  "first_candidate norm [] = None"
| "first_candidate norm (candidate # rest) =
     (case norm candidate of
        Some name \<Rightarrow> Some name
      | None \<Rightarrow> first_candidate norm rest)"

definition get_product_number_field :: "string list \<Rightarrow> string option" where
  "get_product_number_field fieldnames =
     (case fieldnames of
        [] \<Rightarrow> None
      | first # _ \<Rightarrow>
          (case first_candidate (normalized fieldnames) candidates of
             Some name \<Rightarrow> Some name
           | None \<Rightarrow> Some first))"

text \<open>
  The dict \<^verbatim>\<open>csv.DictReader\<close> builds for a row: the zipped pairs, a later duplicate name
  winning, then \<^verbatim>\<open>None\<close> under every field name beyond the end of a short row. The list
  kept under the key \<^verbatim>\<open>None\<close> for a long row is left out: the program looks up a string.
\<close>

definition dictreader_row :: "string list \<Rightarrow> string list \<Rightarrow> (string \<rightharpoonup> string option)" where
  "dictreader_row fieldnames row =
     (let d = fold (\<lambda>(k, v) m. m(k \<mapsto> Some v)) (zip fieldnames row) Map.empty
      in if length row < length fieldnames
         then fold (\<lambda>k m. m(k \<mapsto> None)) (drop (length row) fieldnames) d
         else d)"

text \<open>\<^verbatim>\<open>(row.get(field) or "").strip()\<close>.\<close>

definition row_value :: "(string \<rightharpoonup> string option) \<Rightarrow> string \<Rightarrow> string" where
  "row_value d field = strip (case d field of Some (Some s) \<Rightarrow> s | _ \<Rightarrow> [])"

text \<open>The loop over the reader: blank rows are skipped by \<^verbatim>\<open>DictReader\<close> itself.\<close>

fun collect_values :: "string list \<Rightarrow> string \<Rightarrow> string list list \<Rightarrow> string list \<Rightarrow> string list" where
  "collect_values fieldnames field [] values = values"
| "collect_values fieldnames field (row # rows) values =
     (if row = [] then collect_values fieldnames field rows values
      else (let value = row_value (dictreader_row fieldnames row) field
            in if value \<noteq> [] then collect_values fieldnames field rows (values @ [value])
               else collect_values fieldnames field rows values))"

text \<open>
  The first \<^verbatim>\<open>with\<close> block: the values of the structured pass, \<open>[]\<close> when the reader has
  no field names or the loop collects nothing.
\<close>

definition structured_values :: "string list list \<Rightarrow> exn + string list" where
  "structured_values rows =
     (case rows of
        [] \<Rightarrow> Inr []
      | fieldnames # rest \<Rightarrow>
          if fieldnames = [] then Inr []
          else (case get_product_number_field fieldnames of
                  None \<Rightarrow> Inl (ValueError ''Unable to determine product number column in input CSV.'')
                | Some field \<Rightarrow>
                    if field = [] then
                      Inl (ValueError ''Unable to determine product number column in input CSV.'')
                    else Inr (collect_values fieldnames field rest [])))"

text \<open>The second \<^verbatim>\<open>with\<close> block: one bare value per line.\<close>

fun bare_values :: "string list \<Rightarrow> string list \<Rightarrow> string list" where
  "bare_values [] values = values"
| "bare_values (line # rest) values =
     (let value = strip_chars '';,'' (strip line)
      in if value \<noteq> [] \<and> \<not> startswith (lower value) ''product''
         then bare_values rest (values @ [value])
         else bare_values rest values)"

text \<open>
  The file is \<open>None\<close> when the path does not exist, else its text as the \<^verbatim>\<open>utf-8-sig\<close>
  codec decodes it.
\<close>

definition read_product_numbers ::
  "(string \<Rightarrow> char option) \<Rightarrow> (char \<Rightarrow> string \<Rightarrow> string list list) \<Rightarrow>
   path \<Rightarrow> string option \<Rightarrow> exn + string list" where
  "read_product_numbers sniff csv_reader input_path file =
     (case file of
        None \<Rightarrow> Inl (FileNotFoundError (''Input file does not exist: '' @ path_str input_path))
      | Some text \<Rightarrow>
          (let sample = take 4096 text;
               delimiter = detect_delimiter sniff sample
           in case structured_values (csv_reader delimiter text) of
                Inl e \<Rightarrow> Inl e
              | Inr values \<Rightarrow>
                  if values \<noteq> [] then Inr values
                  else Inr (bare_values (file_lines [] text) [])))"

section \<open>API client\<close>

definition API_BASE :: string where
  "API_BASE = ''https://app.rackbeat.com/api/products''"

text \<open>
  \<^verbatim>\<open>urlencode({"fields": FIELDS})\<close> with \<^verbatim>\<open>FIELDS = "unit,name,quantity"\<close>, evaluated: the
  commas are percent-encoded.
\<close>

definition fields_query :: string where
  "fields_query = ''fields=unit%2Cname%2Cquantity''"

definition build_units_url :: "string \<Rightarrow> string" where
  "build_units_url product_number = API_BASE @ ''/'' @ product_number @ ''/units?'' @ fields_query"

text \<open>The GET request: its URL and its two headers.\<close>

record request =
  url :: string
  authorization :: string
  accept :: string

text \<open>
  What \<^verbatim>\<open>urlopen\<close>, \<^verbatim>\<open>read\<close> and \<^verbatim>\<open>decode\<close> do with a request: a response with its
  body as text, an \<^verbatim>\<open>HTTPError\<close> with its status code and body, a \<^verbatim>\<open>URLError\<close> with
  its reason as text, or any other exception, which no \<^verbatim>\<open>except\<close> clause of
  \<open>fetch_units_for_product\<close> catches: \<^verbatim>\<open>InvalidURL\<close> for a URL that holds a space or a
  control character (the product number goes into the URL as it is),
  \<^verbatim>\<open>UnicodeDecodeError\<close> for a body that is not UTF-8, \<^verbatim>\<open>TimeoutError\<close> while the body
  is read.
\<close>

datatype http_outcome =
    Response string
  | HTTPError nat string
  | URLError string
  | Raised exn

text \<open>
  \<open>json_loads\<close> is \<^verbatim>\<open>json.loads\<close>: the value, or the message of its
  \<^verbatim>\<open>JSONDecodeError\<close>.
\<close>

definition fetch_units_for_product ::
  "(request \<Rightarrow> http_outcome) \<Rightarrow> (string \<Rightarrow> string + json) \<Rightarrow>
   string \<Rightarrow> string \<Rightarrow> exn + json list" where
  "fetch_units_for_product urlopen json_loads product_number token =
     (let u = build_units_url product_number;
          req = \<lparr>url = u, authorization = ''Bearer '' @ token, accept = ''application/json''\<rparr>
      in case urlopen req of
           Response body \<Rightarrow>
             (case json_loads body of
                Inr payload \<Rightarrow> Inr (parse_units_payload payload)
              | Inl msg \<Rightarrow>
                  Inl (RuntimeError (''Invalid JSON for product '' @ [CHR 0x27] @ product_number
                                     @ [CHR 0x27] @ '': '' @ msg)))
         | HTTPError code detail \<Rightarrow>
             Inl (RuntimeError (''HTTP '' @ show_nat code @ '' for product '' @ [CHR 0x27]
                                @ product_number @ [CHR 0x27] @ '' at '' @ u
                                @ ''. Response: '' @ detail))
         | URLError reason \<Rightarrow>
             Inl (RuntimeError (''Network error for product '' @ [CHR 0x27] @ product_number
                                @ [CHR 0x27] @ '': '' @ reason))
         | Raised e \<Rightarrow> Inl e)"

section \<open>Output rows and the output file\<close>

text \<open>The name Python prints for the type of a value that has no \<^verbatim>\<open>get\<close>.\<close>

fun type_name :: "json \<Rightarrow> string" where
  "type_name JNull = ''NoneType''"
| "type_name (JBool b) = ''bool''"
| "type_name (JInt n) = ''int''"
| "type_name (JFloat x) = ''float''"
| "type_name (JStr s) = ''str''"
| "type_name (JList xs) = ''list''"
| "type_name (JObj d) = ''dict''"

text \<open>A row is the four-key dict the loop builds; \<^verbatim>\<open>get\<close> on anything but a dict raises.\<close>

fun to_output_rows :: "string \<Rightarrow> json list \<Rightarrow> exn + pydict list" where
  "to_output_rows product_number [] = Inr []"
| "to_output_rows product_number (unit_item # units) =
     (case unit_item of
        JObj d \<Rightarrow>
          (case to_output_rows product_number units of
             Inl e \<Rightarrow> Inl e
           | Inr rows \<Rightarrow>
               Inr ([(''product_number'', JStr product_number),
                     (''unit'', py_get d ''unit'' (JStr [])),
                     (''unitname'', py_get d ''name'' (JStr [])),
                     (''quantity'', py_get d ''quantity'' (JStr []))] # rows))
      | _ \<Rightarrow>
          Inl (AttributeError ([CHR 0x27] @ type_name unit_item @ [CHR 0x27]
                               @ '' object has no attribute '' @ [CHR 0x27] @ ''get''
                               @ [CHR 0x27])))"

definition output_fieldnames :: "string list" where
  "output_fieldnames = [''product_number'', ''unit'', ''unitname'', ''quantity'']"

text \<open>
  \<^verbatim>\<open>csv.writer\<close> in the excel dialect with delimiter \<open>;\<close>: a field is quoted when it holds
  the delimiter, a double quote, CR or LF, and a double quote inside it is doubled; a record
  ends with CR LF. \<^verbatim>\<open>None\<close> is written as the empty field, a string as itself and any
  other value through \<^verbatim>\<open>str\<close>, which is the parameter \<open>py_str\<close>.
\<close>

definition csv_quote :: "string \<Rightarrow> string" where
  "csv_quote s =
     (if \<exists>c \<in> set s. c \<in> set [CHR '';'', CHR 0x22, CHR 0x0D, CHR 0x0A]
      then [CHR 0x22] @ concat (map (\<lambda>c. if c = CHR 0x22 then [c, c] else [c]) s) @ [CHR 0x22]
      else s)"

definition csv_field :: "(json \<Rightarrow> string) \<Rightarrow> json \<Rightarrow> string" where
  "csv_field py_str v =
     (case v of
        JNull \<Rightarrow> []
      | JStr s \<Rightarrow> csv_quote s
      | _ \<Rightarrow> csv_quote (py_str v))"

definition csv_record :: "(json \<Rightarrow> string) \<Rightarrow> json list \<Rightarrow> string" where
  "csv_record py_str values = join_with '';'' (map (csv_field py_str) values) @ [CHR 0x0D, CHR 0x0A]"

text \<open>
  \<^verbatim>\<open>DictWriter.writerow\<close>: the row's value under each field name in turn, the empty string
  where the row has none. The rows \<open>to_output_rows\<close> builds have no other key, so the
  writer's check for extra keys passes.
\<close>

definition writerow :: "(json \<Rightarrow> string) \<Rightarrow> pydict \<Rightarrow> string" where
  "writerow py_str row = csv_record py_str (map (\<lambda>key. py_get row key (JStr [])) output_fieldnames)"

definition writeheader :: "(json \<Rightarrow> string) \<Rightarrow> string" where
  "writeheader py_str = writerow py_str (zip output_fieldnames (map JStr output_fieldnames))"

text \<open>What reaches the file system: the directory made and the file written.\<close>

datatype fs_op =
    MkdirParents path
  | WriteFile path string

definition write_output_csv :: "(json \<Rightarrow> string) \<Rightarrow> path \<Rightarrow> pydict list \<Rightarrow> fs_op list" where
  "write_output_csv py_str out rows =
     [MkdirParents (parent out),
      WriteFile out (writeheader py_str @ concat (map (writerow py_str) rows))]"

section \<open>Driver\<close>

text \<open>Everything outside the program that a run depends on.\<close>

record world =
  env_token :: "string option"
  input_file :: "string option"
  sniff :: "string \<Rightarrow> char option"
  csv_reader :: "char \<Rightarrow> string \<Rightarrow> string list list"
  urlopen :: "request \<Rightarrow> http_outcome"
  json_loads :: "string \<Rightarrow> string + json"
  py_str :: "json \<Rightarrow> string"

text \<open>
  What a run leaves behind: the value \<open>main\<close> returns, the two streams, and the operations
  it asks of the file system, in order. The file system is taken to carry them out: a refused
  \<^verbatim>\<open>mkdir\<close> or \<^verbatim>\<open>open\<close> raises \<^verbatim>\<open>OSError\<close>, which is not followed here.
\<close>

record outcome =
  exit_code :: nat
  stdout :: "string list"
  stderr :: "string list"
  fs_ops :: "fs_op list"

text \<open>
  The \<^verbatim>\<open>for product_number in product_numbers\<close> loop with its two accumulators. Only a
  \<^verbatim>\<open>RuntimeError\<close> is caught here; any other exception leaves the loop.
\<close>

fun fetch_all ::
  "world \<Rightarrow> string \<Rightarrow> string list \<Rightarrow> pydict list \<Rightarrow> string list \<Rightarrow>
   exn + (pydict list \<times> string list)" where
  "fetch_all w token [] all_rows errors = Inr (all_rows, errors)"
| "fetch_all w token (product_number # rest) all_rows errors =
     (case (case fetch_units_for_product (urlopen w) (json_loads w) product_number token of
              Inl e \<Rightarrow> Inl e
            | Inr units \<Rightarrow> to_output_rows product_number units) of
        Inr rows \<Rightarrow> fetch_all w token rest (all_rows @ rows) errors
      | Inl (RuntimeError msg) \<Rightarrow> fetch_all w token rest all_rows (errors @ [msg])
      | Inl e \<Rightarrow> Inl e)"

text \<open>The outer \<^verbatim>\<open>except Exception\<close>.\<close>

definition fatal :: "exn \<Rightarrow> outcome" where
  "fatal e = \<lparr>exit_code = 1, stdout = [], stderr = [''Error: '' @ str_exn e], fs_ops = []\<rparr>"

definition main :: "world \<Rightarrow> args \<Rightarrow> outcome" where
  "main w a =
     (case get_token (arg_token a) (env_token w) of
        Inl e \<Rightarrow> fatal e
      | Inr token \<Rightarrow>
          (let input_path = Path (arg_input a);
               out = output_path a
           in case read_product_numbers (sniff w) (csv_reader w) input_path (input_file w) of
                Inl e \<Rightarrow> fatal e
              | Inr product_numbers \<Rightarrow>
                  if product_numbers = [] then
                    \<lparr>exit_code = 1, stdout = [],
                     stderr = [''No product numbers found in input CSV.''], fs_ops = []\<rparr>
                  else
                    (case fetch_all w token product_numbers [] [] of
                       Inl e \<Rightarrow> fatal e
                     | Inr (all_rows, errors) \<Rightarrow>
                         \<lparr>exit_code = (if errors \<noteq> [] then 2 else 0),
                          stdout = [''Processed products: '' @ show_nat (length product_numbers),
                                    ''Output rows written: '' @ show_nat (length all_rows),
                                    ''Output file: '' @ path_str out],
                          stderr = (if errors \<noteq> []
                                    then (''Errors: '' @ show_nat (length errors))
                                         # map (\<lambda>error. ''- '' @ error) errors
                                    else []),
                          fs_ops = write_output_csv (py_str w) out all_rows\<rparr>)))"




section \<open>The product-number column, as the specification describes it\<close>

text \<open>
  The reader's contract in the specification's words, to be compared with
  \<open>read_product_numbers\<close>: the column is the one matched against the prioritized candidate
  list, case and surrounding space ignored, else the first column; the result is the
  non-empty, whitespace-trimmed values of that column in row order.
\<close>

text \<open>
  The header name of the recognized column: for the first candidate that some header name
  matches, the last header name matching it; the first header name when no candidate is
  matched.
\<close>

definition recognized_column :: "string list \<Rightarrow> string" where
  "recognized_column names =
     (case filter (\<lambda>candidate. candidate \<in> set (map (\<lambda>name. lower (strip name)) names)) candidates of
        candidate # _ \<Rightarrow> last (filter (\<lambda>name. lower (strip name) = candidate) names)
      | [] \<Rightarrow> hd names)"

text \<open>The position of the column of that name: the last one when header names repeat.\<close>

fun column_index :: "string list \<Rightarrow> string \<Rightarrow> nat option" where
  "column_index [] field = None"
| "column_index (name # names) field =
     (case column_index names field of
        Some i \<Rightarrow> Some (Suc i)
      | None \<Rightarrow> if name = field then Some 0 else None)"

text \<open>The cell of a row in that column, empty where the row is too short to have one.\<close>

definition column_cell :: "string list \<Rightarrow> nat option \<Rightarrow> string" where
  "column_cell row pos =
     (case pos of
        Some i \<Rightarrow> if i < length row then row ! i else []
      | None \<Rightarrow> [])"

definition column_values :: "string list \<Rightarrow> string \<Rightarrow> string list list \<Rightarrow> string list" where
  "column_values names field rows =
     filter (\<lambda>value. value \<noteq> [])
       (map (\<lambda>row. strip (column_cell row (column_index names field))) rows)"

text \<open>
  The bare-line mode in the specification's words: a line's value is the line trimmed of
  whitespace and then of the delimiter characters \<open>;\<close> and \<open>,\<close> at both ends; a value is kept
  when it is non-empty and does not start, case ignored, with \<open>product\<close>.
\<close>

definition bare_value :: "string \<Rightarrow> string" where
  "bare_value line = strip_chars '';,'' (strip line)"

definition looks_like_header :: "string \<Rightarrow> bool" where
  "looks_like_header value = startswith (lower value) ''product''"

definition bare_line_values :: "string list \<Rightarrow> string list" where
  "bare_line_values lines =
     filter (\<lambda>value. value \<noteq> [] \<and> \<not> looks_like_header value) (map bare_value lines)"

section \<open>Properties of parse\_units\_payload\<close>

lemma find_units_skip:
  "\<forall>k \<in> set pre. \<not> is_list (py_get d k JNull) \<Longrightarrow> find_units d (pre @ ks) = find_units d ks"
proof (induction pre)
  case Nil
  show ?case by simp
next
  case (Cons k pre)
  then have "\<not> is_list (py_get d k JNull)" by simp
  then have "find_units d (k # pre @ ks) = find_units d (pre @ ks)"
    by (cases "py_get d k JNull") simp_all
  with Cons show ?case by simp
qed

lemma find_units_none:
  "\<forall>k \<in> set ks. \<not> is_list (py_get d k JNull) \<Longrightarrow> find_units d ks = []"
  using find_units_skip [of ks d "[]"] by simp

lemma find_units_dicts: "x \<in> set (find_units d ks) \<Longrightarrow> is_dict x"
  by (induction ks) (auto split: json.splits)

lemma find_units_single:
  "find_units [(k, JList L)] (pre @ k # post) = filter is_dict L"
proof (induction pre)
  case Nil
  show ?case by (simp add: py_get_def)
next
  case (Cons a pre)
  then show ?case by (cases "a = k") (simp_all add: py_get_def)
qed

text \<open>
  C1. A bare list and the one-key object \<open>{k: L}\<close>, for each of the five wrapper keys,
  give the same extracted list; every other shape (a scalar, null, an object in which no
  wrapper key holds a list) gives the empty list. The function has no failing branch.
\<close>

theorem parse_units_payload_shapes:
  "(\<forall>k \<in> set wrapper_keys.
      parse_units_payload (JObj [(k, JList L)]) = parse_units_payload (JList L))
   \<and> (other_shape p \<longrightarrow> parse_units_payload p = [])"
proof (intro conjI ballI impI)
  fix k assume "k \<in> set wrapper_keys"
  then obtain pre post where keys: "wrapper_keys = pre @ k # post"
    by (auto simp: in_set_conv_decomp)
  have "find_units [(k, JList L)] wrapper_keys = filter is_dict L"
    unfolding keys by (rule find_units_single)
  then show "parse_units_payload (JObj [(k, JList L)]) = parse_units_payload (JList L)"
    by simp
next
  assume "other_shape p"
  then show "parse_units_payload p = []"
    by (cases p) (simp_all add: find_units_none)
qed

theorem parse_units_payload_shapes_witness:
  "parse_units_payload (JObj [(''data'', JList [JObj [(''unit'', JStr ''pcs'')], JInt 3])])
     = [JObj [(''unit'', JStr ''pcs'')]]
   \<and> parse_units_payload (JList [JObj [(''unit'', JStr ''pcs'')], JInt 3])
     = [JObj [(''unit'', JStr ''pcs'')]]
   \<and> other_shape (JObj [(''data'', JStr ''x''), (''total'', JList [])])
   \<and> parse_units_payload (JObj [(''data'', JStr ''x''), (''total'', JList [])]) = []"
  using parse_units_payload_shapes
    [of "[JObj [(''unit'', JStr ''pcs'')], JInt 3]"
        "JObj [(''data'', JStr ''x''), (''total'', JList [])]"]
  by (simp add: wrapper_keys_def py_get_def)

text \<open>
  C8. Everything \<open>parse_units_payload\<close> returns is an object; the other elements of the
  payload list are dropped, so the result is never longer than that list and is strictly
  shorter as soon as the list holds one element that is not an object.
\<close>

theorem parse_units_payload_only_dicts:
  "(\<forall>x \<in> set (parse_units_payload p). is_dict x)
   \<and> parse_units_payload (JList L) = filter is_dict L
   \<and> length (parse_units_payload (JList L)) \<le> length L
   \<and> ((\<exists>x \<in> set L. \<not> is_dict x) \<longrightarrow> length (parse_units_payload (JList L)) < length L)"
proof (intro conjI ballI impI)
  fix x assume "x \<in> set (parse_units_payload p)"
  then show "is_dict x"
    by (cases p) (auto dest: find_units_dicts)
next
  show "parse_units_payload (JList L) = filter is_dict L" by simp
next
  show "length (parse_units_payload (JList L)) \<le> length L" by simp
next
  assume "\<exists>x \<in> set L. \<not> is_dict x"
  then show "length (parse_units_payload (JList L)) < length L"
    by (auto simp: length_filter_less)
qed

theorem parse_units_payload_only_dicts_witness:
  "parse_units_payload (JObj [(''items'', JList [JStr ''a'', JObj [], JNull, JList []])])
     = [JObj []]
   \<and> is_dict (JObj [])
   \<and> parse_units_payload (JList [JStr ''a'', JObj [], JNull, JList []]) = [JObj []]
   \<and> length (parse_units_payload (JList [JStr ''a'', JObj [], JNull, JList []])) < 4"
  using parse_units_payload_only_dicts
    [of "JObj [(''items'', JList [JStr ''a'', JObj [], JNull, JList []])]"
        "[JStr ''a'', JObj [], JNull, JList []]"]
  by (simp add: wrapper_keys_def py_get_def)

text \<open>
  C9. With several wrapper keys in one object, the list returned is the one under the
  first key, in the order item\_units, data, units, results, items, whose value is a list;
  a key that is absent or holds something else is passed over.
\<close>

theorem parse_units_payload_first_list_key:
  assumes "i < length wrapper_keys"
    and "py_get d (wrapper_keys ! i) JNull = JList L"
    and "\<forall>j < i. \<not> is_list (py_get d (wrapper_keys ! j) JNull)"
  shows "parse_units_payload (JObj d) = filter is_dict L"
proof -
  have split: "wrapper_keys = take i wrapper_keys @ wrapper_keys ! i # drop (Suc i) wrapper_keys"
    using assms(1) by (simp add: id_take_nth_drop)
  have "\<forall>k \<in> set (take i wrapper_keys). \<not> is_list (py_get d k JNull)"
    using assms(1,3) by (auto simp: in_set_conv_nth)
  then have "find_units d (take i wrapper_keys @ wrapper_keys ! i # drop (Suc i) wrapper_keys)
      = find_units d (wrapper_keys ! i # drop (Suc i) wrapper_keys)"
    by (rule find_units_skip)
  also have "\<dots> = filter is_dict L"
    using assms(2) by simp
  finally show ?thesis
    using split by simp
qed

theorem parse_units_payload_first_list_key_witness:
  "parse_units_payload
     (JObj [(''items'', JList [JObj [(''unit'', JStr ''box'')]]),
            (''data'', JStr ''n/a''),
            (''units'', JList [JObj [(''unit'', JStr ''pcs'')], JNull])])
   = [JObj [(''unit'', JStr ''pcs'')]]"
  using parse_units_payload_first_list_key
    [of 2 "[(''items'', JList [JObj [(''unit'', JStr ''box'')]]),
            (''data'', JStr ''n/a''),
            (''units'', JList [JObj [(''unit'', JStr ''pcs'')], JNull])]"
        "[JObj [(''unit'', JStr ''pcs'')], JNull]"]
  by (simp add: wrapper_keys_def py_get_def less_Suc_eq)

section \<open>Properties of the output file\<close>

lemma writeheader_text:
  "writeheader p = ''product_number;unit;unitname;quantity'' @ [CHR 0x0D, CHR 0x0A]"
  by (simp add: writeheader_def writerow_def csv_record_def csv_field_def csv_quote_def
      output_fieldnames_def py_get_def)

lemma to_output_rows_dicts:
  "to_output_rows pn (map JObj ds) =
     Inr (map (\<lambda>d. [(''product_number'', JStr pn),
                      (''unit'', py_get d ''unit'' (JStr [])),
                      (''unitname'', py_get d ''name'' (JStr [])),
                      (''quantity'', py_get d ''quantity'' (JStr []))]) ds)"
  by (induction ds) simp_all

lemma writerow_output_row:
  "writerow p [(''product_number'', JStr pn), (''unit'', u), (''unitname'', n), (''quantity'', q)]
     = csv_field p (JStr pn) @ '';'' @ csv_field p u @ '';'' @ csv_field p n @ '';''
       @ csv_field p q @ [CHR 0x0D, CHR 0x0A]"
  by (simp add: writerow_def csv_record_def output_fieldnames_def py_get_def)

text \<open>
  C7. Whatever the rows, the file starts with the header line
  \<open>product_number;unit;unitname;quantity\<close>; the record written for a unit holds the product
  number, the unit, the name and the quantity in that order, separated by \<open>;\<close>; a key the
  unit record lacks gives the empty field.
\<close>

theorem output_csv_format:
  "write_output_csv p out rows =
     [MkdirParents (parent out),
      WriteFile out (''product_number;unit;unitname;quantity'' @ [CHR 0x0D, CHR 0x0A]
                     @ concat (map (writerow p) rows))]
   \<and> (case to_output_rows pn (map JObj ds) of
        Inl e \<Rightarrow> False
      | Inr made \<Rightarrow>
          map (writerow p) made =
            map (\<lambda>d. csv_field p (JStr pn) @ '';''
                      @ csv_field p (py_get d ''unit'' (JStr [])) @ '';''
                      @ csv_field p (py_get d ''name'' (JStr [])) @ '';''
                      @ csv_field p (py_get d ''quantity'' (JStr [])) @ [CHR 0x0D, CHR 0x0A]) ds)
   \<and> (\<forall>k. map_of d k = None \<longrightarrow> csv_field p (py_get d k (JStr [])) = [])"
  by (simp add: write_output_csv_def writeheader_text to_output_rows_dicts writerow_output_row
      py_get_def csv_field_def csv_quote_def)

theorem output_csv_format_witness:
  "write_output_csv (\<lambda>v. ''2'') (Path ''out/u.csv'')
     [[(''product_number'', JStr ''A;1''), (''unit'', JStr ''box''), (''unitname'', JStr []),
       (''quantity'', JInt 2)]]
   = [MkdirParents (Path ''out''),
      WriteFile (Path ''out/u.csv'')
        (''product_number;unit;unitname;quantity'' @ [CHR 0x0D, CHR 0x0A]
         @ [CHR 0x22] @ ''A;1'' @ [CHR 0x22] @ '';box;;2'' @ [CHR 0x0D, CHR 0x0A])]
   \<and> to_output_rows ''A;1'' [JObj [(''unit'', JStr ''box''), (''quantity'', JInt 2)]]
     = Inr [[(''product_number'', JStr ''A;1''), (''unit'', JStr ''box''), (''unitname'', JStr []),
             (''quantity'', JInt 2)]]
   \<and> map_of [(''unit'', JStr ''box''), (''quantity'', JInt 2)] ''name'' = None
   \<and> csv_field (\<lambda>v. ''2'') (py_get [(''unit'', JStr ''box''), (''quantity'', JInt 2)] ''name'' (JStr [])) = []"
  using output_csv_format [of "\<lambda>v. ''2''" "Path ''out/u.csv''"
      "[[(''product_number'', JStr ''A;1''), (''unit'', JStr ''box''), (''unitname'', JStr []),
         (''quantity'', JInt 2)]]" "''A;1''" "[[(''unit'', JStr ''box''), (''quantity'', JInt 2)]]"
      "[(''unit'', JStr ''box''), (''quantity'', JInt 2)]"]
  by (simp add: writerow_def csv_record_def output_fieldnames_def py_get_def csv_field_def
      csv_quote_def parent_def Path_def startswith_def)

section \<open>Properties of the output path\<close>

text \<open>
  C6. An absolute \<^verbatim>\<open>--output\<close> is used as given; a relative one is appended to the parent
  directory of the input path, whose root it keeps; without \<^verbatim>\<open>--output\<close> (an empty string
  counts as none) the file is \<open>product_units.csv\<close> in that directory. The working directory
  is no argument of \<open>output_path\<close>.
\<close>

theorem output_path_resolution:
  "(arg_output a = Some out \<and> out \<noteq> [] \<and> is_absolute (Path out)
      \<longrightarrow> output_path a = Path out)
   \<and> (arg_output a = Some out \<and> out \<noteq> [] \<and> \<not> is_absolute (Path out)
      \<longrightarrow> output_path a = joinpath (parent (Path (arg_input a))) (Path out)
          \<and> root (output_path a) = root (Path (arg_input a))
          \<and> parts (output_path a) = parts (parent (Path (arg_input a))) @ parts (Path out))
   \<and> (arg_output a = None \<or> arg_output a = Some []
      \<longrightarrow> output_path a = joinpath (parent (Path (arg_input a))) (Path ''product_units.csv'')
          \<and> root (output_path a) = root (Path (arg_input a))
          \<and> parts (output_path a) = parts (parent (Path (arg_input a))) @ [''product_units.csv''])"
  by (auto simp: output_path_def is_absolute_def joinpath_def parent_def Path_def startswith_def)

theorem output_path_resolution_witness:
  "path_str (output_path \<lparr>arg_token = None, arg_input = ''data/in/p.csv'',
                           arg_output = Some ''/srv/out.csv''\<rparr>) = ''/srv/out.csv''
   \<and> path_str (output_path \<lparr>arg_token = None, arg_input = ''data/in/p.csv'',
                             arg_output = Some ''out/u.csv''\<rparr>) = ''data/in/out/u.csv''
   \<and> path_str (output_path \<lparr>arg_token = None, arg_input = ''data/in/p.csv'',
                             arg_output = None\<rparr>) = ''data/in/product_units.csv''"
  using output_path_resolution [of "\<lparr>arg_token = None, arg_input = ''data/in/p.csv'',
                           arg_output = Some ''/srv/out.csv''\<rparr>" "''/srv/out.csv''"]
    output_path_resolution [of "\<lparr>arg_token = None, arg_input = ''data/in/p.csv'',
                           arg_output = Some ''out/u.csv''\<rparr>" "''out/u.csv''"]
    output_path_resolution [of "\<lparr>arg_token = None, arg_input = ''data/in/p.csv'',
                           arg_output = None\<rparr>" "[]"]
  by (simp add: path_str_def is_absolute_def joinpath_def parent_def Path_def startswith_def)

section \<open>Properties of the driver\<close>









lemmas reader_eval =
  read_product_numbers_def detect_delimiter_def structured_values_def
  get_product_number_field_def normalized_def candidates_def lower_def lower_char_def
  upper_letters_def lower_letters_def dictreader_row_def row_value_def strip_def
  strip_chars_def whitespace_def startswith_def

lemmas path_eval = output_path_def Path_def parent_def joinpath_def path_str_def is_absolute_def
  startswith_def


lemma show_nat_small:
  "show_nat 0 = ''0''" "show_nat (Suc 0) = ''1''" "show_nat (Suc (Suc 0)) = ''2''"
  "show_nat 404 = ''404''"
  by (simp_all add: show_nat.simps)

text \<open>
  C5. When the reader returns no product number, the run writes nothing to the file
  system, prints nothing to standard output, prints one line to the diagnostic stream and
  returns 1; that line is the no-product-numbers message whenever a token is available (a
  missing token ends the run the same way with its own message).
\<close>

theorem main_no_product_numbers:
  assumes "read_product_numbers (sniff w) (csv_reader w) (Path (arg_input a)) (input_file w) = Inr []"
  shows "exit_code (main w a) = 1 \<and> fs_ops (main w a) = [] \<and> stdout (main w a) = []
    \<and> length (stderr (main w a)) = 1
    \<and> (\<forall>token. get_token (arg_token a) (env_token w) = Inr token
         \<longrightarrow> stderr (main w a) = [''No product numbers found in input CSV.''])"
  using assms by (auto simp: main_def fatal_def split: sum.splits)

theorem main_no_product_numbers_witness:
  "read_product_numbers (\<lambda>sample. None) (\<lambda>d text. [[''product_number'']]) (Path ''in/p.csv'')
     (Some ''product_number'') = Inr []
   \<and> main \<lparr>env_token = Some ''t0k'', input_file = Some ''product_number'',
            sniff = (\<lambda>sample. None), csv_reader = (\<lambda>d text. [[''product_number'']]),
            urlopen = (\<lambda>r. URLError ''down''), json_loads = (\<lambda>b. Inl ''bad''),
            py_str = (\<lambda>v. [])\<rparr>
          \<lparr>arg_token = None, arg_input = ''in/p.csv'', arg_output = None\<rparr>
     = \<lparr>exit_code = 1, stdout = [], stderr = [''No product numbers found in input CSV.''],
        fs_ops = []\<rparr>"
proof -
  let ?w = "\<lparr>env_token = Some ''t0k'', input_file = Some ''product_number'',
            sniff = (\<lambda>sample. None), csv_reader = (\<lambda>d text. [[''product_number'']]),
            urlopen = (\<lambda>r. URLError ''down''), json_loads = (\<lambda>b. Inl ''bad''),
            py_str = (\<lambda>v. [])\<rparr>"
  let ?a = "\<lparr>arg_token = None, arg_input = ''in/p.csv'', arg_output = None\<rparr>"
  have r: "read_product_numbers (\<lambda>sample. None) (\<lambda>d text. [[''product_number'']]) (Path ''in/p.csv'')
     (Some ''product_number'') = Inr []"
    by (simp add: reader_eval)
  have t: "get_token (arg_token ?a) (env_token ?w) = Inr ''t0k''"
    by (simp add: get_token_def strip_def strip_chars_def whitespace_def)
  have "read_product_numbers (sniff ?w) (csv_reader ?w) (Path (arg_input ?a)) (input_file ?w) = Inr []"
    using r by simp
  from main_no_product_numbers [OF this] t r show ?thesis
    by (cases "main ?w ?a") (simp add: length_Suc_conv)
qed




text \<open>
  C2. Product numbers A1 and A2, two unit records for A1, HTTP status 404 for A2: the run
  returns 2, writes the header and two records, both for A1, and reports one error, the one
  for A2. The failure of A2 leaves the rows of A1 in the file.
\<close>

theorem main_partial_failure:
  assumes "get_token (arg_token a) (env_token w) = Inr token"
    and "read_product_numbers (sniff w) (csv_reader w) (Path (arg_input a)) (input_file w)
           = Inr [''A1'', ''A2'']"
    and "urlopen w \<lparr>url = build_units_url ''A1'', authorization = ''Bearer '' @ token,
                     accept = ''application/json''\<rparr> = Response body"
    and "json_loads w body = Inr payload"
    and "parse_units_payload payload = [JObj u1, JObj u2]"
    and "urlopen w \<lparr>url = build_units_url ''A2'', authorization = ''Bearer '' @ token,
                     accept = ''application/json''\<rparr> = HTTPError 404 detail"
  shows "main w a =
    \<lparr>exit_code = 2,
     stdout = [''Processed products: 2'', ''Output rows written: 2'',
               ''Output file: '' @ path_str (output_path a)],
     stderr = [''Errors: 1'',
               ''- HTTP 404 for product '' @ [CHR 0x27] @ ''A2'' @ [CHR 0x27] @ '' at ''
                 @ build_units_url ''A2'' @ ''. Response: '' @ detail],
     fs_ops = [MkdirParents (parent (output_path a)),
               WriteFile (output_path a)
                 (''product_number;unit;unitname;quantity'' @ [CHR 0x0D, CHR 0x0A]
                  @ ''A1;'' @ csv_field (py_str w) (py_get u1 ''unit'' (JStr [])) @ '';''
                  @ csv_field (py_str w) (py_get u1 ''name'' (JStr [])) @ '';''
                  @ csv_field (py_str w) (py_get u1 ''quantity'' (JStr [])) @ [CHR 0x0D, CHR 0x0A]
                  @ ''A1;'' @ csv_field (py_str w) (py_get u2 ''unit'' (JStr [])) @ '';''
                  @ csv_field (py_str w) (py_get u2 ''name'' (JStr [])) @ '';''
                  @ csv_field (py_str w) (py_get u2 ''quantity'' (JStr [])) @ [CHR 0x0D, CHR 0x0A])]\<rparr>"
proof -
  have f1: "fetch_units_for_product (urlopen w) (json_loads w) ''A1'' token = Inr [JObj u1, JObj u2]"
    using assms(3,4,5) by (simp add: fetch_units_for_product_def Let_def)
  have f2: "fetch_units_for_product (urlopen w) (json_loads w) ''A2'' token =
      Inl (RuntimeError (''HTTP 404 for product '' @ [CHR 0x27] @ ''A2'' @ [CHR 0x27] @ '' at ''
                 @ build_units_url ''A2'' @ ''. Response: '' @ detail))"
    using assms(6) by (simp add: fetch_units_for_product_def Let_def show_nat_small)
  have a1: "csv_field (py_str w) (JStr ''A1'') = ''A1''"
    by (simp add: csv_field_def csv_quote_def)
  have loop: "fetch_all w token [''A1'', ''A2''] [] [] =
      Inr ([[(''product_number'', JStr ''A1''), (''unit'', py_get u1 ''unit'' (JStr [])),
             (''unitname'', py_get u1 ''name'' (JStr [])),
             (''quantity'', py_get u1 ''quantity'' (JStr []))],
            [(''product_number'', JStr ''A1''), (''unit'', py_get u2 ''unit'' (JStr [])),
             (''unitname'', py_get u2 ''name'' (JStr [])),
             (''quantity'', py_get u2 ''quantity'' (JStr []))]],
           [''HTTP 404 for product '' @ [CHR 0x27] @ ''A2'' @ [CHR 0x27] @ '' at ''
                 @ build_units_url ''A2'' @ ''. Response: '' @ detail])"
    by (simp add: f1 f2)
  show ?thesis
    using assms(1,2) loop
    by (simp add: main_def Let_def write_output_csv_def writeheader_text writerow_output_row
        a1 show_nat_small)
qed

theorem main_partial_failure_witness:
  "main \<lparr>env_token = Some ''t0k'', input_file = Some ''sku'',
          sniff = (\<lambda>sample. None), csv_reader = (\<lambda>d text. [[''sku''], [''A1''], [''A2'']]),
          urlopen = (\<lambda>r. if url r = build_units_url ''A1'' then Response ''{}''
                          else HTTPError 404 ''Not Found''),
          json_loads = (\<lambda>b. Inr (JObj [(''data'',
                          JList [JObj [(''unit'', JStr ''pcs''), (''name'', JStr ''Piece''),
                                       (''quantity'', JStr ''1'')],
                                 JObj [(''unit'', JStr ''box'')]])])),
          py_str = (\<lambda>v. [])\<rparr>
        \<lparr>arg_token = None, arg_input = ''in/p.csv'', arg_output = None\<rparr>
   = \<lparr>exit_code = 2,
      stdout = [''Processed products: 2'', ''Output rows written: 2'',
                ''Output file: in/product_units.csv''],
      stderr = [''Errors: 1'',
                ''- HTTP 404 for product '' @ [CHR 0x27] @ ''A2'' @ [CHR 0x27]
                  @ '' at https://app.rackbeat.com/api/products/A2/units?fields=unit%2Cname%2Cquantity. Response: Not Found''],
      fs_ops = [MkdirParents (Path ''in''),
                WriteFile (Path ''in/product_units.csv'')
                  (''product_number;unit;unitname;quantity'' @ [CHR 0x0D, CHR 0x0A]
                   @ ''A1;pcs;Piece;1'' @ [CHR 0x0D, CHR 0x0A]
                   @ ''A1;box;;'' @ [CHR 0x0D, CHR 0x0A])]\<rparr>"
proof -
  let ?w = "\<lparr>env_token = Some ''t0k'', input_file = Some ''sku'',
          sniff = (\<lambda>sample. None), csv_reader = (\<lambda>d text. [[''sku''], [''A1''], [''A2'']]),
          urlopen = (\<lambda>r. if url r = build_units_url ''A1'' then Response ''{}''
                          else HTTPError 404 ''Not Found''),
          json_loads = (\<lambda>b. Inr (JObj [(''data'',
                          JList [JObj [(''unit'', JStr ''pcs''), (''name'', JStr ''Piece''),
                                       (''quantity'', JStr ''1'')],
                                 JObj [(''unit'', JStr ''box'')]])])),
          py_str = (\<lambda>v. [])\<rparr>"
  let ?a = "\<lparr>arg_token = None, arg_input = ''in/p.csv'', arg_output = None\<rparr>"
  have t: "get_token (arg_token ?a) (env_token ?w) = Inr ''t0k''"
    by (simp add: get_token_def strip_def strip_chars_def whitespace_def)
  have r: "read_product_numbers (sniff ?w) (csv_reader ?w) (Path (arg_input ?a)) (input_file ?w)
      = Inr [''A1'', ''A2'']"
    by (simp add: reader_eval)
  have u1: "urlopen ?w \<lparr>url = build_units_url ''A1'', authorization = ''Bearer '' @ ''t0k'',
                     accept = ''application/json''\<rparr> = Response ''{}''"
    by simp
  have j: "json_loads ?w ''{}'' = Inr (JObj [(''data'',
                          JList [JObj [(''unit'', JStr ''pcs''), (''name'', JStr ''Piece''),
                                       (''quantity'', JStr ''1'')],
                                 JObj [(''unit'', JStr ''box'')]])])"
    by simp
  have p: "parse_units_payload (JObj [(''data'',
                          JList [JObj [(''unit'', JStr ''pcs''), (''name'', JStr ''Piece''),
                                       (''quantity'', JStr ''1'')],
                                 JObj [(''unit'', JStr ''box'')]])])
      = [JObj [(''unit'', JStr ''pcs''), (''name'', JStr ''Piece''), (''quantity'', JStr ''1'')],
         JObj [(''unit'', JStr ''box'')]]"
    by (simp add: wrapper_keys_def py_get_def)
  have u2: "urlopen ?w \<lparr>url = build_units_url ''A2'', authorization = ''Bearer '' @ ''t0k'',
                     accept = ''application/json''\<rparr> = HTTPError 404 ''Not Found''"
    by (simp add: build_units_url_def)
  show ?thesis
    using main_partial_failure [OF t r u1 j p u2]
    by (simp add: path_eval build_units_url_def API_BASE_def fields_query_def py_get_def
        csv_field_def csv_quote_def)
qed

section \<open>Properties of the input reader\<close>

lemma bare_values_eq: "bare_values lines acc = acc @ bare_line_values lines"
  by (induction lines arbitrary: acc)
     (simp_all add: bare_line_values_def bare_value_def looks_like_header_def Let_def)

lemma strip_chars_last:
  assumes "strip_chars cs s \<noteq> []"
  shows "last (strip_chars cs s) \<notin> set cs"
proof -
  let ?P = "\<lambda>c. c \<in> set cs"
  let ?d = "dropWhile ?P (rev (dropWhile ?P s))"
  from assms have ne: "?d \<noteq> []" by (simp add: strip_chars_def)
  then have "\<not> ?P (hd ?d)" by (rule hd_dropWhile)
  moreover have "last (strip_chars cs s) = hd ?d"
    using ne by (simp add: strip_chars_def last_rev)
  ultimately show ?thesis by simp
qed

lemma strip_chars_hd:
  assumes "strip_chars cs s \<noteq> []"
  shows "hd (strip_chars cs s) \<notin> set cs"
proof -
  let ?P = "\<lambda>c. c \<in> set cs"
  let ?t = "dropWhile ?P s"
  have "rev (takeWhile ?P (rev ?t) @ dropWhile ?P (rev ?t)) = ?t"
    by (simp only: takeWhile_dropWhile_id rev_rev_ident)
  then have "rev (dropWhile ?P (rev ?t)) @ rev (takeWhile ?P (rev ?t)) = ?t"
    by (simp only: rev_append)
  then have t: "?t = strip_chars cs s @ rev (takeWhile ?P (rev ?t))"
    by (simp only: strip_chars_def)
  with assms have "?t \<noteq> []" by (metis Nil_is_append_conv)
  then have "\<not> ?P (hd ?t)" by (rule hd_dropWhile)
  moreover from t assms have "hd ?t = hd (strip_chars cs s)"
    by (metis hd_append2)
  ultimately show ?thesis by simp
qed

text \<open>
  C4. When the structured pass ends without a value and without raising (the file has no
  header row, or the selected column, whose header name is non-empty, has no cell that is
  non-empty after trimming), the reader returns the bare-line values of the file's lines in
  file order: the value of a line is the line trimmed of whitespace and then of \<open>;\<close> and
  \<open>,\<close> at both ends, and it is kept when it is non-empty and does not start, case ignored,
  with \<open>product\<close>. No returned value begins or ends with \<open>;\<close> or \<open>,\<close>.
\<close>

theorem read_product_numbers_bare_lines:
  fixes sniffer :: "string \<Rightarrow> char option" and reader :: "char \<Rightarrow> string \<Rightarrow> string list list"
  assumes "structured_values (reader (detect_delimiter sniffer (take 4096 contents)) contents) = Inr []"
  shows "read_product_numbers sniffer reader input_path (Some contents)
           = Inr (bare_line_values (file_lines [] contents))
    \<and> (\<forall>value \<in> set (bare_line_values (file_lines [] contents)).
          value \<noteq> [] \<and> hd value \<notin> {CHR '';'', CHR '',''} \<and> last value \<notin> {CHR '';'', CHR '',''})"
proof -
  have "read_product_numbers sniffer reader input_path (Some contents)
          = Inr (bare_line_values (file_lines [] contents))"
    using assms by (simp add: read_product_numbers_def bare_values_eq)
  moreover have "value \<noteq> [] \<and> hd value \<notin> {CHR '';'', CHR '',''} \<and> last value \<notin> {CHR '';'', CHR '',''}"
    if "value \<in> set (bare_line_values (file_lines [] contents))" for "value"
  proof -
    from that obtain line where v: "value = strip_chars '';,'' (strip line)" and ne: "value \<noteq> []"
      by (auto simp: bare_line_values_def bare_value_def)
    from ne have "hd value \<notin> set '';,''" "last value \<notin> set '';,''"
      unfolding v by (rule strip_chars_hd, rule strip_chars_last)
    with ne show ?thesis by simp
  qed
  ultimately show ?thesis by blast
qed

lemmas bare_eval = bare_line_values_def bare_value_def looks_like_header_def

lemmas column_eval = recognized_column_def column_values_def column_cell_def candidates_def
  lower_def lower_char_def upper_letters_def lower_letters_def strip_def strip_chars_def
  whitespace_def

theorem read_product_numbers_bare_lines_witness:
  "structured_values
     ((\<lambda>d t. [[], [''A1'', []], ['',B2''], [''product x'']])
        (detect_delimiter (\<lambda>sample. None)
           (take 4096 [CHR 0x0A, CHR ''A'', CHR ''1'', CHR '';'', CHR 0x0A, CHR '','', CHR ''B'',
                       CHR ''2'', CHR 0x0A, CHR ''p'', CHR ''r'', CHR ''o'', CHR ''d'', CHR ''u'',
                       CHR ''c'', CHR ''t'', CHR '' '', CHR ''x'', CHR 0x0A]))
        [CHR 0x0A, CHR ''A'', CHR ''1'', CHR '';'', CHR 0x0A, CHR '','', CHR ''B'',
         CHR ''2'', CHR 0x0A, CHR ''p'', CHR ''r'', CHR ''o'', CHR ''d'', CHR ''u'',
         CHR ''c'', CHR ''t'', CHR '' '', CHR ''x'', CHR 0x0A]) = Inr []
   \<and> read_product_numbers (\<lambda>sample. None) (\<lambda>d t. [[], [''A1'', []], ['',B2''], [''product x'']])
       (Path ''in/p.csv'')
       (Some [CHR 0x0A, CHR ''A'', CHR ''1'', CHR '';'', CHR 0x0A, CHR '','', CHR ''B'',
              CHR ''2'', CHR 0x0A, CHR ''p'', CHR ''r'', CHR ''o'', CHR ''d'', CHR ''u'',
              CHR ''c'', CHR ''t'', CHR '' '', CHR ''x'', CHR 0x0A])
     = Inr [''A1'', ''B2'']"
proof -
  let ?text = "[CHR 0x0A, CHR ''A'', CHR ''1'', CHR '';'', CHR 0x0A, CHR '','', CHR ''B'',
                CHR ''2'', CHR 0x0A, CHR ''p'', CHR ''r'', CHR ''o'', CHR ''d'', CHR ''u'',
                CHR ''c'', CHR ''t'', CHR '' '', CHR ''x'', CHR 0x0A]"
  let ?reader = "\<lambda>(d::char) (t::string). [[], [''A1'', []], ['',B2''], [''product x'']]"
  have s: "structured_values (?reader (detect_delimiter (\<lambda>sample. None) (take 4096 ?text)) ?text)
             = Inr []"
    by (simp add: structured_values_def)
  have b: "bare_line_values (file_lines [] ?text) = [''A1'', ''B2'']"
    by (simp add: bare_eval strip_def strip_chars_def whitespace_def startswith_def lower_def
                  lower_char_def upper_letters_def lower_letters_def)
  from read_product_numbers_bare_lines
         [where reader = "?reader" and sniffer = "\<lambda>sample. None" and contents = "?text"
            and input_path = "Path ''in/p.csv''"] s b
  show ?thesis by simp
qed

text \<open>
  In a file whose lines begin with the delimiter the first header name is empty: the selected
  column has no value, the bare-line values would be \<open>A1\<close> and \<open>A2\<close>, yet the reader
  raises \<^verbatim>\<open>ValueError\<close> and the second pass is never reached.
\<close>

theorem read_product_numbers_bare_lines_counterexample:
  "recognized_column ['''', ''A1''] = ''''
   \<and> column_values ['''', ''A1''] '''' [['''', ''A2'']] = []
   \<and> bare_line_values (file_lines [] ('';A1'' @ [CHR 0x0A] @ '';A2'' @ [CHR 0x0A])) = [''A1'', ''A2'']
   \<and> read_product_numbers (\<lambda>sample. Some (CHR '';'')) (\<lambda>d t. [['''', ''A1''], ['''', ''A2'']])
        (Path ''in/p.csv'') (Some ('';A1'' @ [CHR 0x0A] @ '';A2'' @ [CHR 0x0A]))
      = Inl (ValueError ''Unable to determine product number column in input CSV.'')"
proof -
  have a: "recognized_column ['''', ''A1''] = ''''"
    "column_values ['''', ''A1''] '''' [['''', ''A2'']] = []"
    by (simp_all add: column_eval)
  have b: "bare_line_values (file_lines [] ('';A1'' @ [CHR 0x0A] @ '';A2'' @ [CHR 0x0A])) = [''A1'', ''A2'']"
    by (simp add: bare_eval strip_def strip_chars_def whitespace_def startswith_def lower_def
                  lower_char_def upper_letters_def lower_letters_def)
  have c: "read_product_numbers (\<lambda>sample. Some (CHR '';'')) (\<lambda>d t. [['''', ''A1''], ['''', ''A2'']])
        (Path ''in/p.csv'') (Some ('';A1'' @ [CHR 0x0A] @ '';A2'' @ [CHR 0x0A]))
      = Inl (ValueError ''Unable to determine product number column in input CSV.'')"
    by (simp add: reader_eval)
  from a b c show ?thesis by simp
qed

lemma strip_Nil: "strip [] = []"
  by (simp add: strip_def strip_chars_def)

lemma column_index_None: "column_index names field = None \<longleftrightarrow> field \<notin> set names"
  by (induction names) (auto split: option.splits)

lemma column_index_less: "column_index names field = Some i \<Longrightarrow> i < length names"
  by (induction names arbitrary: i) (auto split: option.splits if_splits)

lemma column_index_append:
  "column_index (xs @ ys) field =
     (case column_index ys field of
        Some i \<Rightarrow> Some (length xs + i)
      | None \<Rightarrow> column_index xs field)"
  by (induction xs) (auto split: option.splits)

lemma fold_zip_lookup:
  "fold (\<lambda>(k, v) m. m(k \<mapsto> Some v)) (zip names row) m field =
     (case column_index (take (length row) names) field of
        Some i \<Rightarrow> Some (Some (row ! i))
      | None \<Rightarrow> m field)"
proof (induction names arbitrary: row m)
  case Nil
  then show ?case by simp
next
  case (Cons n ns)
  note IH = Cons.IH
  show ?case
  proof (cases row)
    case Nil
    then show ?thesis by simp
  next
    case (Cons r rs)
    then show ?thesis
      using IH [of rs "m(n \<mapsto> Some r)"] by (auto split: option.splits)
  qed
qed

lemma fold_none_lookup:
  "fold (\<lambda>k m. m(k \<mapsto> None)) ks m field = (if field \<in> set ks then Some None else m field)"
  by (induction ks arbitrary: m) auto

text \<open>What the program reads from a row is the trimmed cell of the column of that name.\<close>

lemma row_value_column_cell:
  "row_value (dictreader_row names row) field = strip (column_cell row (column_index names field))"
proof (cases "length row < length names")
  case False
  then have "take (length row) names = names" by simp
  with False have d: "dictreader_row names row field =
      (case column_index names field of Some i \<Rightarrow> Some (Some (row ! i)) | None \<Rightarrow> None)"
    by (simp add: dictreader_row_def fold_zip_lookup)
  show ?thesis
  proof (cases "column_index names field")
    case None
    with d show ?thesis by (simp add: row_value_def column_cell_def)
  next
    case (Some i)
    then have "i < length names" by (rule column_index_less)
    with False have "i < length row" by simp
    with d Some show ?thesis by (simp add: row_value_def column_cell_def)
  qed
next
  case short: True
  let ?k = "length row"
  have parts: "column_index names field =
      (case column_index (drop ?k names) field of
         Some i \<Rightarrow> Some (length (take ?k names) + i)
       | None \<Rightarrow> column_index (take ?k names) field)"
    using column_index_append [of "take ?k names" "drop ?k names" field] by simp
  from short have len: "length (take ?k names) = ?k" by simp
  show ?thesis
  proof (cases "field \<in> set (drop ?k names)")
    case True
    then have "column_index (drop ?k names) field \<noteq> None" by (simp add: column_index_None)
    then obtain i where "column_index (drop ?k names) field = Some i" by auto
    with parts len have "column_index names field = Some (?k + i)" by simp
    then have "column_cell row (column_index names field) = []" by (simp add: column_cell_def)
    moreover from short True have "dictreader_row names row field = Some None"
      by (simp add: dictreader_row_def fold_none_lookup)
    ultimately show ?thesis by (simp add: row_value_def)
  next
    case False
    then have "column_index (drop ?k names) field = None" by (simp add: column_index_None)
    with parts have ci: "column_index names field = column_index (take ?k names) field" by simp
    from short False have d: "dictreader_row names row field =
        (case column_index (take ?k names) field of
           Some i \<Rightarrow> Some (Some (row ! i))
         | None \<Rightarrow> None)"
      by (simp add: dictreader_row_def fold_none_lookup fold_zip_lookup)
    show ?thesis
    proof (cases "column_index (take ?k names) field")
      case None
      with d ci show ?thesis by (simp add: row_value_def column_cell_def)
    next
      case (Some i)
      then have "i < length (take ?k names)" by (rule column_index_less)
      then have "i < length row" by simp
      with d ci Some show ?thesis by (simp add: row_value_def column_cell_def)
    qed
  qed
qed

lemma column_values_Nil: "column_values names field [] = []"
  by (simp add: column_values_def)

lemma column_values_Cons:
  "column_values names field (row # rows) =
     (if strip (column_cell row (column_index names field)) \<noteq> []
      then strip (column_cell row (column_index names field)) # column_values names field rows
      else column_values names field rows)"
  by (simp add: column_values_def)

lemma column_cell_Nil: "column_cell [] pos = []"
  by (simp add: column_cell_def split: option.splits)

lemma collect_values_eq:
  "collect_values names field rows acc = acc @ column_values names field rows"
proof (induction rows arbitrary: acc)
  case Nil
  show ?case by (simp add: column_values_Nil)
next
  case (Cons row rows)
  show ?case
  proof (cases "row = []")
    case True
    then show ?thesis
      by (simp add: Cons.IH column_values_Cons column_cell_Nil strip_Nil)
  next
    case False
    then show ?thesis
      by (simp add: Cons.IH column_values_Cons row_value_column_cell Let_def)
  qed
qed

lemma normalized_lookup:
  "normalized names c =
     (if c \<in> set (map (\<lambda>name. lower (strip name)) names)
      then Some (last (filter (\<lambda>name. lower (strip name) = c) names))
      else None)"
proof (induction names rule: rev_induct)
  case Nil
  show ?case by (simp add: normalized_def)
next
  case (snoc x xs)
  then show ?case by (auto simp: normalized_def)
qed

lemma first_candidate_filter:
  "first_candidate (normalized names) cs =
     (case filter (\<lambda>candidate. candidate \<in> set (map (\<lambda>name. lower (strip name)) names)) cs of
        [] \<Rightarrow> None
      | candidate # _ \<Rightarrow> Some (last (filter (\<lambda>name. lower (strip name) = candidate) names)))"
  by (induction cs) (simp_all add: normalized_lookup)

text \<open>The field the program selects is the recognized column of the specification.\<close>

lemma get_product_number_field_recognized:
  assumes "names \<noteq> []"
  shows "get_product_number_field names = Some (recognized_column names)"
proof -
  from assms obtain first rest where n: "names = first # rest" by (cases names) auto
  have "get_product_number_field names =
      (case first_candidate (normalized names) candidates of
         Some name \<Rightarrow> Some name
       | None \<Rightarrow> Some (hd names))"
    unfolding get_product_number_field_def n by (simp split: option.splits)
  also have "\<dots> = Some (recognized_column names)"
    unfolding first_candidate_filter recognized_column_def
    by (simp split: list.splits)
  finally show ?thesis .
qed

lemma structured_values_column:
  assumes "names \<noteq> []" and "recognized_column names \<noteq> []"
  shows "structured_values (names # rows) = Inr (column_values names (recognized_column names) rows)"
  using assms
  by (simp add: structured_values_def get_product_number_field_recognized collect_values_eq)

text \<open>
  C3. When the reader's first row is a non-empty header, the name of its recognized column
  (the last header name matching the first matched candidate, case and surrounding space
  ignored; else the first header name) is non-empty, and that column (the last one of that
  name) holds at least one cell that is non-empty after trimming, the reader returns exactly
  the non-empty trimmed cells of that column in row order.
\<close>

theorem read_product_numbers_column:
  fixes sniffer :: "string \<Rightarrow> char option" and reader :: "char \<Rightarrow> string \<Rightarrow> string list list"
  assumes "reader (detect_delimiter sniffer (take 4096 contents)) contents = names # rows"
    and "names \<noteq> []"
    and "recognized_column names \<noteq> []"
    and "column_values names (recognized_column names) rows \<noteq> []"
  shows "read_product_numbers sniffer reader input_path (Some contents)
           = Inr (column_values names (recognized_column names) rows)"
  using assms by (simp add: read_product_numbers_def structured_values_column)

theorem read_product_numbers_column_witness:
  "(\<lambda>d t. [['' Sku'', ''name''], [''A1'', ''x''], ['''', ''y''], [], [''  B2 '', ''z''], [''C3'']])
      (detect_delimiter (\<lambda>sample. None)
         (take 4096 ('' Sku;name'' @ [CHR 0x0A] @ ''A1;x'' @ [CHR 0x0A] @ '';y'' @ [CHR 0x0A, CHR 0x0A]
                      @ ''  B2 ;z'' @ [CHR 0x0A] @ ''C3'' @ [CHR 0x0A])))
      ('' Sku;name'' @ [CHR 0x0A] @ ''A1;x'' @ [CHR 0x0A] @ '';y'' @ [CHR 0x0A, CHR 0x0A]
         @ ''  B2 ;z'' @ [CHR 0x0A] @ ''C3'' @ [CHR 0x0A])
     = ['' Sku'', ''name''] # [[''A1'', ''x''], ['''', ''y''], [], [''  B2 '', ''z''], [''C3'']]
   \<and> recognized_column ['' Sku'', ''name''] = '' Sku''
   \<and> read_product_numbers (\<lambda>sample. None)
        (\<lambda>d t. [['' Sku'', ''name''], [''A1'', ''x''], ['''', ''y''], [], [''  B2 '', ''z''], [''C3'']])
        (Path ''in/p.csv'')
        (Some ('' Sku;name'' @ [CHR 0x0A] @ ''A1;x'' @ [CHR 0x0A] @ '';y'' @ [CHR 0x0A, CHR 0x0A]
                 @ ''  B2 ;z'' @ [CHR 0x0A] @ ''C3'' @ [CHR 0x0A]))
      = Inr [''A1'', ''B2'', ''C3'']"
proof -
  let ?text = "'' Sku;name'' @ [CHR 0x0A] @ ''A1;x'' @ [CHR 0x0A] @ '';y'' @ [CHR 0x0A, CHR 0x0A]
                 @ ''  B2 ;z'' @ [CHR 0x0A] @ ''C3'' @ [CHR 0x0A]"
  let ?names = "['' Sku'', ''name'']"
  let ?rows = "[[''A1'', ''x''], ['''', ''y''], [], [''  B2 '', ''z''], [''C3'']]"
  let ?reader = "\<lambda>(d::char) (t::string). ?names # ?rows"
  let ?sniffer = "\<lambda>sample::string. (None :: char option)"
  have r: "?reader (detect_delimiter ?sniffer (take 4096 ?text)) ?text = ?names # ?rows"
    by simp
  have f: "recognized_column ?names = '' Sku''"
    by (simp add: column_eval)
  have v: "column_values ?names '' Sku'' ?rows = [''A1'', ''B2'', ''C3'']"
    by (simp add: column_eval)
  have "read_product_numbers ?sniffer ?reader (Path ''in/p.csv'') (Some ?text)
          = Inr (column_values ?names (recognized_column ?names) ?rows)"
    by (rule read_product_numbers_column [where names = "?names" and rows = "?rows"])
       (simp_all add: f v)
  with r f v show ?thesis by simp
qed

text \<open>
  A file that holds the header \<open>sku\<close> alone has no value in its column, yet the reader
  returns the header line as a product number; a file with the header \<open>sku;name\<close> and one
  row whose \<open>sku\<close> cell is empty gives the header line and the other cell of the row.
\<close>

theorem read_product_numbers_column_counterexample:
  "recognized_column [''sku''] = ''sku''
   \<and> column_values [''sku''] ''sku'' [] = []
   \<and> read_product_numbers (\<lambda>sample. None) (\<lambda>d t. [[''sku'']]) (Path ''in/p.csv'')
        (Some (''sku'' @ [CHR 0x0A]))
      = Inr [''sku'']
   \<and> recognized_column [''sku'', ''name''] = ''sku''
   \<and> column_values [''sku'', ''name''] ''sku'' [['''', ''Widget'']] = []
   \<and> read_product_numbers (\<lambda>sample. Some (CHR '';''))
        (\<lambda>d t. [[''sku'', ''name''], ['''', ''Widget'']]) (Path ''in/p.csv'')
        (Some (''sku;name'' @ [CHR 0x0A] @ '';Widget'' @ [CHR 0x0A]))
      = Inr [''sku;name'', ''Widget'']"
proof -
  have a: "recognized_column [''sku''] = ''sku''" "column_values [''sku''] ''sku'' [] = []"
    by (simp_all add: column_eval)
  have b: "read_product_numbers (\<lambda>sample. None) (\<lambda>d t. [[''sku'']]) (Path ''in/p.csv'')
        (Some (''sku'' @ [CHR 0x0A])) = Inr [''sku'']"
    by (simp add: reader_eval)
  have c: "recognized_column [''sku'', ''name''] = ''sku''"
    "column_values [''sku'', ''name''] ''sku'' [['''', ''Widget'']] = []"
    by (simp_all add: column_eval)
  have d: "read_product_numbers (\<lambda>sample. Some (CHR '';''))
        (\<lambda>d t. [[''sku'', ''name''], ['''', ''Widget'']]) (Path ''in/p.csv'')
        (Some (''sku;name'' @ [CHR 0x0A] @ '';Widget'' @ [CHR 0x0A]))
      = Inr [''sku;name'', ''Widget'']"
    by (simp add: reader_eval)
  from a b c d show ?thesis by simp
qed


end
